theory Spec2Isabelle
  imports Complex_Main
begin

section \<open>Ewald summation of pyqmc (src/pyqmc/ewald.py)\<close>

text \<open>
  The class \<open>Ewald\<close> is embedded with explicit state passing: the object \<open>self\<close> is a record,
  every method takes the record and returns it together with its result.

  Conventions of the embedding.
  \<^item> numpy's float64 and complex128 numbers are the real and complex numbers: the theorems
    are about the arithmetic the code writes down, evaluated exactly, not about rounding.
  \<^item> A row of length 3 (a position, a lattice vector, a reciprocal vector) is a triple of
    reals; a 3 by 3 array is the triple of its rows.
  \<^item> An input array of shape (nconf, nelec, 3) is its shape together with its index function;
    an output array is a list (of lists).
  \<^item> An exception is a value \<open>Inl e\<close> of the result type.
  \<^item> Where numpy divides by zero and goes on with inf or nan (two particles at the same
    place give r = 0 in a real-space sum), the model has the value of \<open>x / 0\<close> in HOL. The
    statements below hold whatever the real-space sums are, and the divisions of the setup
    are shown to have a nonzero divisor.
\<close>

subsection \<open>Vectors and library functions\<close>

type_synonym vec = "real \<times> real \<times> real"
type_synonym mat = "vec \<times> vec \<times> vec"

fun vadd :: "vec \<Rightarrow> vec \<Rightarrow> vec" where
  "vadd (a, b, c) (x, y, z) = (a + x, b + y, c + z)"

fun vscale :: "real \<Rightarrow> vec \<Rightarrow> vec" where
  "vscale s (x, y, z) = (s * x, s * y, s * z)"

fun vdot :: "vec \<Rightarrow> vec \<Rightarrow> real" where
  "vdot (a, b, c) (x, y, z) = a * x + b * y + c * z"

text \<open>\<open>np.linalg.norm(v, axis=-1)\<close>\<close>

definition norm3 :: "vec \<Rightarrow> real" where
  "norm3 v = sqrt (vdot v v)"

text \<open>
  \<open>scipy.special.erfc\<close>, the complementary error function, by the power series of the
  error function. No theorem below evaluates it.
\<close>

definition erfc :: "real \<Rightarrow> real" where
  "erfc x = 1 - 2 / sqrt pi * (\<Sum>n. (- 1) ^ n * x ^ (2 * n + 1) / (fact n * real (2 * n + 1)))"

datatype error = LinAlgError | IndexError | AttributeError | ValueError

subsection \<open>The collaborators: distance primitives and configurations\<close>

text \<open>
  The module \<open>pyqmc.distance\<close> is not part of the sources at hand; the code reaches it as
  \<open>configs.dist\<close> and as \<open>pyqmc.distance.MinimalImageDistance(latvec)\<close>. It is a parameter
  of the model, with the shapes that the comments and the indexing of ewald.py fix:
  \<^item> \<open>dist_i a v\<close> is the entry of \<open>dist.dist_i(configs, vec)\<close> that belongs to the reference
    position \<open>a\<close> (a row of the first argument) and the particle position \<open>v\<close> (a row of
    the second);
  \<^item> \<open>dist_matrix nconf n x\<close>, for an array \<open>x\<close> of shape (nconf, n, 3), is the list of the
    index pairs returned as \<open>ee_inds\<close>, each with its column of the returned distance array
    (one vector per configuration).
\<close>

record distance =
  dist_i :: "vec \<Rightarrow> vec \<Rightarrow> vec"
  dist_matrix :: "nat \<Rightarrow> nat \<Rightarrow> (nat \<Rightarrow> nat \<Rightarrow> vec) \<Rightarrow> ((nat \<times> nat) \<times> (nat \<Rightarrow> vec)) list"

text \<open>
  A \<open>PeriodicConfigs\<close> object: \<open>configs.configs\<close> of shape
  \<open>(shape_nconf, shape_nelec, shape_ndim)\<close> and \<open>configs.dist\<close>. The entries of the array
  are read only where its last axis has the length 3 of the cell's vectors, and
  \<open>configs c i\<close> is then the position of particle i of configuration c.
\<close>

record PeriodicConfigs =
  shape_nconf :: nat
  shape_nelec :: nat
  shape_ndim :: nat
  configs :: "nat \<Rightarrow> nat \<Rightarrow> vec"
  dist :: distance

subsection \<open>The object\<close>

text \<open>
  The attributes of \<open>self\<close>. The three attributes \<open>ei_separated\<close>, \<open>ee_separated\<close> and
  \<open>ewalde_separated\<close> do not exist until \<open>ewald_electron\<close> has run: \<open>None\<close>.
\<close>

record ewald =
  nelec :: "nat \<times> nat"
  atom_coords :: "vec list"
  atom_charges :: "real list"
  latvec :: mat
  lattice_displacements :: "vec list"
  alpha :: real
  gpoints :: "vec list"
  gweight :: "real list"
  ijconst :: real
  ii_const :: real
  ee_const :: "int \<Rightarrow> real"
  ei_const :: "int \<Rightarrow> real"
  e_single :: "int \<Rightarrow> real"
  e_single_test :: real
  ion_ion :: real
  ion_exp :: "complex list"
  ei_separated :: "real list list option"
  ee_separated :: "real list list option"
  ewalde_separated :: "real list list option"

text \<open>An array of shape (n, m) built from its entries.\<close>

definition mk_array2 :: "nat \<Rightarrow> nat \<Rightarrow> (nat \<Rightarrow> nat \<Rightarrow> real) \<Rightarrow> real list list" where
  "mk_array2 n m f = map (\<lambda>c. map (\<lambda>i. f c i) [0..<m]) [0..<n]"

subsection \<open>Real-space sums\<close>

text \<open>
  \<open>np.sum(erfc(self.alpha * r) / r, axis=-1)\<close> with
  \<open>r = np.linalg.norm(d + self.lattice_displacements, axis=-1)\<close>, for one distance vector d.
\<close>

definition real_sum :: "real \<Rightarrow> vec list \<Rightarrow> vec \<Rightarrow> real" where
  "real_sum a L d = sum_list (map (\<lambda>n. erfc (a * norm3 (vadd d n)) / norm3 (vadd d n)) L)"

text \<open>
  The einsum of \<open>-self.atom_charges\<close> with \<open>erfc(self.alpha * r) / r\<close> over the atoms and the
  lattice displacements, for one particle at position x
  (lines 260-265 and lines 350-355).
\<close>

definition ei_real_pos :: "ewald \<Rightarrow> distance \<Rightarrow> vec \<Rightarrow> real" where
  "ei_real_pos E d x =
     (\<Sum>k<length (atom_charges E).
        - (atom_charges E ! k) *
          real_sum (alpha E) (lattice_displacements E) (dist_i d (atom_coords E ! k) x))"

text \<open>
  Lines 269-279: the loop over \<open>zip(ee_inds, ee_cij.T)\<close> writes the value of each pair at
  \<open>[:, i, j]\<close> and \<open>[:, j, i]\<close> of the zero array \<open>ee_matrix\<close>; an index outside the array
  raises IndexError.
\<close>

definition ee_matrix_step ::
  "ewald \<Rightarrow> (nat \<times> nat) \<times> (nat \<Rightarrow> vec) \<Rightarrow> (nat \<Rightarrow> nat \<Rightarrow> nat \<Rightarrow> real) \<Rightarrow> (nat \<Rightarrow> nat \<Rightarrow> nat \<Rightarrow> real)" where
  "ee_matrix_step E p M =
     (\<lambda>c a b. if (a = fst (fst p) \<and> b = snd (fst p)) \<or> (a = snd (fst p) \<and> b = fst (fst p))
               then real_sum (alpha E) (lattice_displacements E) (snd p c)
               else M c a b)"

definition ee_matrix :: "ewald \<Rightarrow> ((nat \<times> nat) \<times> (nat \<Rightarrow> vec)) list \<Rightarrow> nat \<Rightarrow> nat \<Rightarrow> nat \<Rightarrow> real" where
  "ee_matrix E ps = fold (ee_matrix_step E) ps (\<lambda>c a b. 0)"

definition ee_real_separated :: "ewald \<Rightarrow> PeriodicConfigs \<Rightarrow> error + (nat \<Rightarrow> nat \<Rightarrow> real)" where
  "ee_real_separated E cf =
     (if shape_nelec cf > 1 then
        (let ps = dist_matrix (dist cf) (shape_nconf cf) (shape_nelec cf) (configs cf) in
         if \<exists>p \<in> set ps. \<not> (fst (fst p) < shape_nelec cf \<and> snd (fst p) < shape_nelec cf)
         then Inl IndexError
         else Inr (\<lambda>c i. (\<Sum>j<shape_nelec cf. ee_matrix E ps c i j) / 2))
      else Inr (\<lambda>c i. 0))"

subsection \<open>Reciprocal-space sums\<close>

text \<open>\<open>np.exp(1j * np.dot(x, self.gpoints.T))\<close> at the k-th reciprocal vector.\<close>

definition e_expGdotR :: "ewald \<Rightarrow> vec \<Rightarrow> nat \<Rightarrow> complex" where
  "e_expGdotR E x k = cis (vdot x (gpoints E ! k))"

text \<open>\<open>np.sum(e_expGdotR, axis=1, keepdims=True)\<close>: the structure factor of configuration c.\<close>

definition sum_e_exp :: "ewald \<Rightarrow> PeriodicConfigs \<Rightarrow> nat \<Rightarrow> nat \<Rightarrow> complex" where
  "sum_e_exp E cf c k = (\<Sum>i<shape_nelec cf. e_expGdotR E (configs cf c i) k)"

text \<open>Lines 287-289.\<close>

definition ee_recip_separated :: "ewald \<Rightarrow> PeriodicConfigs \<Rightarrow> nat \<Rightarrow> nat \<Rightarrow> real" where
  "ee_recip_separated E cf c i =
     (\<Sum>k<length (gweight E).
        (Re (cnj (sum_e_exp E cf c k) * e_expGdotR E (configs cf c i) k) - 1 / 2) * gweight E ! k)"

text \<open>Lines 292-293, for one particle at position x.\<close>

definition ei_recip_pos :: "ewald \<Rightarrow> vec \<Rightarrow> real" where
  "ei_recip_pos E x =
     (\<Sum>k<length (gweight E). Re (- cnj (ion_exp E ! k) * e_expGdotR E x k) * gweight E ! k)"

subsection \<open>The evaluation methods\<close>

text \<open>
  \<open>ewald_electron\<close>. The code has no check of the shape of its argument. For a batch whose
  last axis is not of length 3, \<open>np.dot(configs.configs, self.gpoints.T)\<close> of line 284
  raises ValueError, if no earlier operation has raised; the attributes of \<open>self\<close> are
  written on lines 296-298 only.
\<close>

definition ewald_electron :: "ewald \<Rightarrow> PeriodicConfigs \<Rightarrow> error + (ewald \<times> real list \<times> real list)" where
  "ewald_electron E cf =
     (let nconf = shape_nconf cf; ne = shape_nelec cf in
      case ee_real_separated E cf of
        Inl e \<Rightarrow> Inl e
      | Inr ee_real \<Rightarrow>
         if shape_ndim cf \<noteq> 3 then Inl ValueError else
         (let ei_sep = mk_array2 nconf ne
                 (\<lambda>c i. ei_real_pos E (dist cf) (configs cf c i) + 2 * ei_recip_pos E (configs cf c i));
              ee_sep = mk_array2 nconf ne (\<lambda>c i. ee_real c i + 1 * ee_recip_separated E cf c i);
              E' = E\<lparr>ei_separated := Some ei_sep, ee_separated := Some ee_sep,
                     ewalde_separated := Some (map2 (map2 (+)) ei_sep ee_sep)\<rparr>;
              ee = map (\<lambda>row. sum_list row + real ne / 2 * sum_list (gweight E)) ee_sep;
              ei = map sum_list ei_sep
          in Inr (E', ee, ei)))"

definition energy :: "ewald \<Rightarrow> PeriodicConfigs \<Rightarrow> error + (ewald \<times> real list \<times> real list \<times> real)" where
  "energy E cf =
     (let ne = shape_nelec cf in
      case ewald_electron E cf of
        Inl e \<Rightarrow> Inl e
      | Inr (E', ee, ei) \<Rightarrow>
          Inr (E', map (\<lambda>v. v + ee_const E' (int ne)) ee,
                   map (\<lambda>v. v + ei_const E' (int ne)) ei,
                   ion_ion E' + ii_const E'))"

definition energy_separated :: "ewald \<Rightarrow> PeriodicConfigs \<Rightarrow> error + (ewald \<times> real list list)" where
  "energy_separated E cf =
     (let ne = shape_nelec cf in
      case ewalde_separated E of
        None \<Rightarrow> Inl AttributeError
      | Some sep \<Rightarrow> Inr (E, map (map (\<lambda>v. e_single E (int ne) + v)) sep))"

text \<open>
  \<open>energy_with_test_pos\<close>. The test positions \<open>epos.configs\<close> have shape (nconf, 3), as the
  docstring says: \<open>epos c\<close> is the test position of configuration c. For a batch whose
  last axis is not of length 3, \<open>np.dot(configs.configs, self.gpoints.T)\<close> of line 364 raises
  ValueError, if no earlier operation has raised.

  Line 366 multiplies \<open>test_exp.conj()\<close>, of shape (nconf, nG), with \<open>e_expGdotR\<close>, of shape
  (nconf, nelec, nG). numpy aligns the shapes from the right, so the configuration axis of
  \<open>test_exp\<close> meets the particle axis of \<open>e_expGdotR\<close>: the product (and the addition into
  \<open>Vtest[:, :-1]\<close> of line 367) raises ValueError unless nconf is 1 or equals nelec, and for
  nconf = nelec > 1 the entry [c, j] is computed from the test position of configuration j.
\<close>

definition ee_recip_test :: "ewald \<Rightarrow> PeriodicConfigs \<Rightarrow> (nat \<Rightarrow> vec) \<Rightarrow> nat \<Rightarrow> nat \<Rightarrow> real" where
  "ee_recip_test E cf epos c j =
     (\<Sum>k<length (gweight E).
        Re (cnj (e_expGdotR E (epos (if shape_nconf cf = 1 then 0 else j)) k)
              * e_expGdotR E (configs cf c j) k) * gweight E ! k)"

definition ei_recip_test :: "ewald \<Rightarrow> vec \<Rightarrow> real" where
  "ei_recip_test E x =
     (\<Sum>k<length (gweight E).
        (Re (- cnj (ion_exp E ! k) * e_expGdotR E x k) + 1 / 2) * gweight E ! k)"

definition energy_with_test_pos ::
  "ewald \<Rightarrow> PeriodicConfigs \<Rightarrow> (nat \<Rightarrow> vec) \<Rightarrow> error + (ewald \<times> real list list)" where
  "energy_with_test_pos E cf epos =
     (let nconf = shape_nconf cf; ne = shape_nelec cf in
      if shape_ndim cf \<noteq> 3 then Inl ValueError
      else if nconf \<noteq> 1 \<and> nconf \<noteq> ne then Inl ValueError
      else Inr (E, mk_array2 nconf (ne + 1)
        (\<lambda>c j. if j < ne
           then ijconst E
                + real_sum (alpha E) (lattice_displacements E) (dist_i (dist cf) (configs cf c j) (epos c))
                + 2 * ee_recip_test E cf epos c j
           else e_single_test E
                + ei_real_pos E (dist cf) (epos c)
                + 2 * ei_recip_test E (epos c))))"

subsection \<open>Setup\<close>

text \<open>The part of the pyscf \<open>Cell\<close> object that the constructor reads.\<close>

record cell =
  cell_nelec :: "nat \<times> nat"
  cell_atom_coords :: "vec list"
  cell_atom_charges :: "real list"
  cell_lattice_vectors :: mat

text \<open>
  \<open>np.linalg.det\<close> and \<open>np.linalg.inv\<close> of a 3 by 3 array, and \<open>np.dot\<close> of a row with
  a 3 by 3 array. \<open>np.linalg.inv\<close> raises LinAlgError for a singular array.
\<close>

fun np_det :: "mat \<Rightarrow> real" where
  "np_det ((a, b, c), (d, e, f), (g, h, i)) =
     a * (e * i - f * h) - b * (d * i - f * g) + c * (d * h - e * g)"

fun adjugate :: "mat \<Rightarrow> mat" where
  "adjugate ((a, b, c), (d, e, f), (g, h, i)) =
     ((e * i - f * h, c * h - b * i, b * f - c * e),
      (f * g - d * i, a * i - c * g, c * d - a * f),
      (d * h - e * g, b * g - a * h, a * e - b * d))"

fun mscale :: "real \<Rightarrow> mat \<Rightarrow> mat" where
  "mscale s (r0, r1, r2) = (vscale s r0, vscale s r1, vscale s r2)"

definition np_inv :: "mat \<Rightarrow> error + mat" where
  "np_inv m = (if np_det m = 0 then Inl LinAlgError else Inr (mscale (1 / np_det m) (adjugate m)))"

fun transpose3 :: "mat \<Rightarrow> mat" where
  "transpose3 ((a, b, c), (d, e, f), (g, h, i)) = ((a, d, g), (b, e, h), (c, f, i))"

fun vecmat :: "vec \<Rightarrow> mat \<Rightarrow> vec" where
  "vecmat (x, y, z) (r0, r1, r2) = vadd (vadd (vscale x r0) (vscale y r1)) (vscale z r2)"

text \<open>
  \<open>np.meshgrid(*[np.arange(-n, n + 1)] * 3, indexing="ij")\<close>, stacked and reshaped to rows:
  all integer triples, the first coordinate varying slowest.
\<close>

definition meshgrid3 :: "int \<Rightarrow> (int \<times> int \<times> int) list" where
  "meshgrid3 n = List.product [- n..n] (List.product [- n..n] [- n..n])"

fun vec_of_int :: "int \<times> int \<times> int \<Rightarrow> vec" where
  "vec_of_int (x, y, z) = (real_of_int x, real_of_int y, real_of_int z)"

text \<open>The object before any attribute is set; every attribute is written before it is read.\<close>

definition blank :: ewald where
  "blank = \<lparr>nelec = (0, 0), atom_coords = [], atom_charges = [],
            latvec = ((0, 0, 0), (0, 0, 0), (0, 0, 0)), lattice_displacements = [],
            alpha = 0, gpoints = [], gweight = [], ijconst = 0, ii_const = 0,
            ee_const = (\<lambda>ne. 0), ei_const = (\<lambda>ne. 0), e_single = (\<lambda>ne. 0),
            e_single_test = 0, ion_ion = 0, ion_exp = [],
            ei_separated = None, ee_separated = None, ewalde_separated = None\<rparr>"

definition set_lattice_displacements :: "ewald \<Rightarrow> int \<Rightarrow> ewald" where
  "set_lattice_displacements E nlatvec =
     E\<lparr>lattice_displacements := map (\<lambda>t. vecmat (vec_of_int t) (latvec E)) (meshgrid3 nlatvec)\<rparr>"

text \<open>
  \<open>ewald_ion\<close>: sets \<open>self.ion_exp\<close> and returns the ion-ion energy. The parameter \<open>mid\<close>
  is \<open>pyqmc.distance.MinimalImageDistance\<close>. Indexing \<open>self.atom_charges\<close> with an index
  pair that is out of range raises IndexError, and so does an empty list of pairs, which
  \<open>np.asarray\<close> turns into an array of floats (a cell with no fixed particle).
\<close>

definition ewald_ion :: "(mat \<Rightarrow> distance) \<Rightarrow> ewald \<Rightarrow> error + (ewald \<times> real)" where
  "ewald_ion mid E =
     (let ion_ion_real =
            (if length (atom_charges E) = 1 then Inr 0
             else
               (let ps = dist_matrix (mid (latvec E)) 1 (length (atom_coords E))
                           (\<lambda>c k. atom_coords E ! k)
                in if ps = [] \<or> (\<exists>p \<in> set ps. \<not> (fst (fst p) < length (atom_charges E)
                                                    \<and> snd (fst p) < length (atom_charges E)))
                   then Inl IndexError
                   else Inr (sum_list (map (\<lambda>p. atom_charges E ! fst (fst p)
                                              * atom_charges E ! snd (fst p)
                                              * real_sum (alpha E) (lattice_displacements E) (snd p 0))
                                       ps))))
      in case ion_ion_real of
           Inl e \<Rightarrow> Inl e
         | Inr rl \<Rightarrow>
            (let ie = map (\<lambda>G. \<Sum>k<length (atom_charges E).
                               cis (vdot G (atom_coords E ! k)) * complex_of_real (atom_charges E ! k))
                          (gpoints E);
                 ion_ion_rec = (\<Sum>k<length (gweight E). gweight E ! k * (cmod (ie ! k)) ^ 2)
             in Inr (E\<lparr>ion_exp := ie\<rparr>, rl + ion_ion_rec)))"

definition set_ewald_constants :: "(mat \<Rightarrow> distance) \<Rightarrow> ewald \<Rightarrow> real \<Rightarrow> error + ewald" where
  "set_ewald_constants mid E cellvolume =
     (let i_sum = sum_list (atom_charges E);
          ii_sum2 = sum_list (map (\<lambda>z. z ^ 2) (atom_charges E));
          ii_sum = (i_sum ^ 2 - ii_sum2) / 2;
          ijc = - pi / (cellvolume * alpha E ^ 2);
          squareconst = - alpha E / sqrt pi + ijc / 2;
          E1 = E\<lparr>ijconst := ijc,
                 ii_const := ii_sum * ijc + ii_sum2 * squareconst,
                 ee_const := (\<lambda>ne. real_of_int (ne * (ne - 1)) / 2 * ijc + real_of_int ne * squareconst),
                 ei_const := (\<lambda>ne. - real_of_int ne * i_sum * ijc),
                 e_single := (\<lambda>ne. real_of_int (ne - 1) * ijc - i_sum * ijc + squareconst),
                 e_single_test := - i_sum * ijc + squareconst\<rparr>
      in case ewald_ion mid E1 of
           Inl e \<Rightarrow> Inl e
         | Inr (E2, v) \<Rightarrow> Inr (E2\<lparr>ion_ion := v\<rparr>))"

text \<open>Lines 95-103: the smallest cell height and alpha.\<close>

fun rows :: "mat \<Rightarrow> vec list" where
  "rows (r0, r1, r2) = [r0, r1, r2]"

definition smallestheight :: "mat \<Rightarrow> mat \<Rightarrow> real" where
  "smallestheight lv crossproduct =
     Min (set (map2 (\<lambda>cp a. \<bar>vdot cp a\<bar> / norm3 cp) (rows crossproduct) (rows lv)))"

text \<open>
  Lines 107-117: the reciprocal vectors and their weights; the mask \<open>bigweight\<close> keeps the
  entries of both arrays whose weight exceeds 1e-10. Line 104 prints alpha; the output is
  not modelled.
\<close>

fun positive_octants :: "int \<times> int \<times> int \<Rightarrow> bool" where
  "positive_octants (x, y, z) \<longleftrightarrow>
     real_of_int x + 1 / 10 ^ 6 * real_of_int y + 1 / 10 ^ 12 * real_of_int z > 0"

definition gpoints_all :: "mat \<Rightarrow> int \<Rightarrow> vec list" where
  "gpoints_all recvec ewald_gmax =
     map (\<lambda>t. vscale (2 * pi) (vecmat (vec_of_int t) recvec))
         (filter positive_octants (meshgrid3 ewald_gmax))"

definition gweight_of :: "real \<Rightarrow> real \<Rightarrow> vec \<Rightarrow> real" where
  "gweight_of cellvolume a g =
     4 * pi * exp (- vdot g g / (4 * a ^ 2)) / (cellvolume * vdot g g)"

definition set_up_reciprocal_ewald_sum :: "(mat \<Rightarrow> distance) \<Rightarrow> ewald \<Rightarrow> int \<Rightarrow> error + ewald" where
  "set_up_reciprocal_ewald_sum mid E ewald_gmax =
     (let cellvolume = np_det (latvec E) in
      case np_inv (latvec E) of
        Inl e \<Rightarrow> Inl e
      | Inr recvec \<Rightarrow>
         (let crossproduct = mscale cellvolume (transpose3 recvec);
              a = 5 / smallestheight (latvec E) crossproduct;
              gp = gpoints_all recvec ewald_gmax;
              gw = map (gweight_of cellvolume a) gp
          in set_ewald_constants mid
               (E\<lparr>alpha := a,
                  gpoints := filter (\<lambda>g. gweight_of cellvolume a g > 1 / 10 ^ 10) gp,
                  gweight := filter (\<lambda>w. w > 1 / 10 ^ 10) gw\<rparr>)
               cellvolume))"

text \<open>\<open>Ewald(cell, ewald_gmax, nlatvec)\<close>\<close>

definition Ewald_init :: "(mat \<Rightarrow> distance) \<Rightarrow> cell \<Rightarrow> int \<Rightarrow> int \<Rightarrow> error + ewald" where
  "Ewald_init mid cl ewald_gmax nlatvec =
     set_up_reciprocal_ewald_sum mid
       (set_lattice_displacements
          (blank\<lparr>nelec := cell_nelec cl, atom_coords := cell_atom_coords cl,
                 atom_charges := cell_atom_charges cl, latvec := cell_lattice_vectors cl\<rparr>)
          nlatvec)
       ewald_gmax"

subsection \<open>Closed forms of the setup\<close>

text \<open>
  The values that \<open>set_up_reciprocal_ewald_sum\<close> computes for a lattice with an invertible
  array of lattice vectors, named for the statements below: \<open>recvec\<close>, \<open>self.alpha\<close> and the
  reciprocal vectors that pass the filter \<open>bigweight\<close>.
\<close>

definition recvec_of :: "mat \<Rightarrow> mat" where
  "recvec_of lv = mscale (1 / np_det lv) (adjugate lv)"

definition alpha_of :: "mat \<Rightarrow> real" where
  "alpha_of lv = 5 / smallestheight lv (mscale (np_det lv) (transpose3 (recvec_of lv)))"

definition bigweight_gpoints :: "mat \<Rightarrow> int \<Rightarrow> vec list" where
  "bigweight_gpoints lv gmax =
     filter (\<lambda>g. gweight_of (np_det lv) (alpha_of lv) g > 1 / 10 ^ 10)
            (gpoints_all (recvec_of lv) gmax)"

text \<open>
  The coefficients of section 4.2 of the specification, in its words: the pairwise
  coefficient and the per-particle coefficient, for a cell volume V and a splitting
  parameter a.
\<close>

definition C_pair :: "real \<Rightarrow> real \<Rightarrow> real" where
  "C_pair V a = - pi / (V * a ^ 2)"

definition C_self :: "real \<Rightarrow> real \<Rightarrow> real" where
  "C_self V a = - a / sqrt pi + C_pair V a / 2"

subsection \<open>Concrete inputs\<close>

text \<open>
  Modelled from the spec: the distance collaborator (\<open>pyqmc.distance\<close>, absent from the
  sources) is "a minimum-image pairwise-distance primitive and a distance-to-fixed-points
  primitive". This instance, used for the concrete inputs only, takes plain differences
  and lists the pairs i < j in order.
\<close>

definition raw_distance :: distance where
  "raw_distance =
     \<lparr>dist_i = (\<lambda>a v. vadd v (vscale (- 1) a)),
      dist_matrix = (\<lambda>nconf n x.
         concat (map (\<lambda>i. map (\<lambda>j. ((i, j), \<lambda>c. vadd (x c i) (vscale (- 1) (x c j)))) [Suc i..<n])
                     [0..<n]))\<rparr>"

text \<open>
  A cubic cell of side 1 with one fixed particle of charge 2 at the origin, and the object
  \<open>Ewald(cell, ewald_gmax=1, nlatvec=1)\<close> built from it.
\<close>

definition unit_cell :: cell where
  "unit_cell = \<lparr>cell_nelec = (1, 1), cell_atom_coords = [(0, 0, 0)], cell_atom_charges = [2],
                 cell_lattice_vectors = ((1, 0, 0), (0, 1, 0), (0, 0, 1))\<rparr>"

definition unit_ewald :: ewald where
  "unit_ewald = projr (Ewald_init (\<lambda>lv. raw_distance) unit_cell 1 1)"



text \<open>Batches of one configuration: one particle, two particles, two other particles.\<close>

definition one_particle :: PeriodicConfigs where
  "one_particle = \<lparr>shape_nconf = 1, shape_nelec = 1, shape_ndim = 3, configs = (\<lambda>c i. (1 / 2, 0, 0)),
                    dist = raw_distance\<rparr>"

definition two_particles :: PeriodicConfigs where
  "two_particles = \<lparr>shape_nconf = 1, shape_nelec = 2, shape_ndim = 3,
                     configs = (\<lambda>c i. if i = 0 then (1 / 2, 0, 0) else (0, 1 / 2, 0)),
                     dist = raw_distance\<rparr>"

definition two_other_particles :: PeriodicConfigs where
  "two_other_particles = \<lparr>shape_nconf = 1, shape_nelec = 2, shape_ndim = 3,
                     configs = (\<lambda>c i. if i = 0 then (1 / 4, 1 / 4, 0) else (0, 0, 1 / 3)),
                     dist = raw_distance\<rparr>"

text \<open>A batch of two configurations with three particles each, and two test positions.\<close>

definition two_by_three :: PeriodicConfigs where
  "two_by_three = \<lparr>shape_nconf = 2, shape_nelec = 3, shape_ndim = 3,
                    configs = (\<lambda>c i. (real c / 2, real i / 4, 1 / 8)),
                    dist = raw_distance\<rparr>"

definition two_test_positions :: "nat \<Rightarrow> vec" where
  "two_test_positions c = (1 / 3, real c / 3, 2 / 3)"

text \<open>
  A batch of shape (1, 2, 2): two particles with two coordinates each. Its entries are
  never read.
\<close>

definition planar_batch :: PeriodicConfigs where
  "planar_batch = \<lparr>shape_nconf = 1, shape_nelec = 2, shape_ndim = 2,
                    configs = (\<lambda>c i. (0, 0, 0)), dist = raw_distance\<rparr>"

section \<open>Properties\<close>

subsection \<open>Helper facts\<close>

lemma sum_list_map_upt: "sum_list (map f [0..<n]) = (\<Sum>i<n. f i)"
  by (simp add: interv_sum_list_conv_sum_set_nat lessThan_atLeast0)

lemma mk_array2_nth: "c < n \<Longrightarrow> mk_array2 n m f ! c = map (f c) [0..<m]"
  by (simp add: mk_array2_def)

lemma length_mk_array2: "length (mk_array2 n m f) = n"
  by (simp add: mk_array2_def)

lemma sum_list_gweight: "sum_list (ws::real list) = (\<Sum>k<length ws. ws ! k)"
  by (simp add: sum_list_sum_nth lessThan_atLeast0)

lemma Re_cnj_mult_self: "Re (cnj z * z) = (cmod z)\<^sup>2"
  unfolding cmod_power2 by (simp add: power2_eq_square)

lemma sum_shift_half:
  "(\<Sum>i<n. (a i - 1 / 2) * (w::real)) = w * (\<Sum>i<n. a i) - real n / 2 * w"
proof -
  have "(\<Sum>i<n. (a i - 1 / 2) * w) = (\<Sum>i<n. w * a i - w / 2)"
    by (rule sum.cong) (simp_all add: algebra_simps)
  also have "\<dots> = w * (\<Sum>i<n. a i) - real n / 2 * w"
    by (simp add: sum_subtractf sum_distrib_left)
  finally show ?thesis .
qed

lemma ee_recip_total:
  "(\<Sum>i<shape_nelec cf. ee_recip_separated E cf c i)
     + real (shape_nelec cf) / 2 * sum_list (gweight E)
   = (\<Sum>k<length (gweight E). gweight E ! k * (cmod (sum_e_exp E cf c k))\<^sup>2)"
proof -
  let ?n = "shape_nelec cf" and ?m = "length (gweight E)"
  let ?S = "\<lambda>k. sum_e_exp E cf c k"
  let ?e = "\<lambda>i k. e_expGdotR E (configs cf c i) k"
  have inner: "(\<Sum>i<?n. (Re (cnj (?S k) * ?e i k) - 1 / 2) * gweight E ! k)
        = gweight E ! k * (cmod (?S k))\<^sup>2 - real ?n / 2 * gweight E ! k" for k
  proof -
    have "(\<Sum>i<?n. Re (cnj (?S k) * ?e i k)) = Re (cnj (?S k) * (\<Sum>i<?n. ?e i k))"
      by (simp add: sum_distrib_left)
    also have "\<dots> = (cmod (?S k))\<^sup>2"
      unfolding sum_e_exp_def [symmetric] by (rule Re_cnj_mult_self)
    finally have "(\<Sum>i<?n. Re (cnj (?S k) * ?e i k)) = (cmod (?S k))\<^sup>2" .
    then show ?thesis
      by (simp only: sum_shift_half)
  qed
  have "(\<Sum>i<?n. ee_recip_separated E cf c i)
        = (\<Sum>k<?m. \<Sum>i<?n. (Re (cnj (?S k) * ?e i k) - 1 / 2) * gweight E ! k)"
    unfolding ee_recip_separated_def by (rule sum.swap)
  also have "\<dots> = (\<Sum>k<?m. gweight E ! k * (cmod (?S k))\<^sup>2) - real ?n / 2 * (\<Sum>k<?m. gweight E ! k)"
    by (simp only: inner sum_subtractf sum_distrib_left)
  finally show ?thesis
    by (simp add: sum_list_gweight)
qed

lemma ewald_electron_Inr:
  assumes "ewald_electron E cf = Inr (E', ee, ei)"
  shows "\<exists>ee_real. ee_real_separated E cf = Inr ee_real
     \<and> E' = E\<lparr>ei_separated := Some (mk_array2 (shape_nconf cf) (shape_nelec cf)
                 (\<lambda>c i. ei_real_pos E (dist cf) (configs cf c i) + 2 * ei_recip_pos E (configs cf c i))),
              ee_separated := Some (mk_array2 (shape_nconf cf) (shape_nelec cf)
                 (\<lambda>c i. ee_real c i + 1 * ee_recip_separated E cf c i)),
              ewalde_separated := Some (map2 (map2 (+))
                 (mk_array2 (shape_nconf cf) (shape_nelec cf)
                    (\<lambda>c i. ei_real_pos E (dist cf) (configs cf c i) + 2 * ei_recip_pos E (configs cf c i)))
                 (mk_array2 (shape_nconf cf) (shape_nelec cf)
                    (\<lambda>c i. ee_real c i + 1 * ee_recip_separated E cf c i)))\<rparr>
     \<and> ee = map (\<lambda>row. sum_list row + real (shape_nelec cf) / 2 * sum_list (gweight E))
               (mk_array2 (shape_nconf cf) (shape_nelec cf)
                  (\<lambda>c i. ee_real c i + 1 * ee_recip_separated E cf c i))
     \<and> ei = map sum_list (mk_array2 (shape_nconf cf) (shape_nelec cf)
                 (\<lambda>c i. ei_real_pos E (dist cf) (configs cf c i) + 2 * ei_recip_pos E (configs cf c i)))"
  using assms unfolding ewald_electron_def Let_def
  by (cases "ee_real_separated E cf") (auto split: if_splits)

lemma map2_mk_array2:
  "map2 (map2 (+)) (mk_array2 n m f) (mk_array2 n m g) = mk_array2 n m (\<lambda>c i. f c i + g c i)"
  unfolding mk_array2_def
  by (simp add: zip_map_map map_zip_map map_zip_map2 zip_same_conv_map comp_def)

lemma sum_list_mk_array2_row:
  "c < n \<Longrightarrow> sum_list (mk_array2 n m f ! c) = (\<Sum>i<m. f c i)"
  by (simp add: mk_array2_nth sum_list_map_upt)

lemma ewald_electron_ee_nth:
  assumes "ewald_electron E cf = Inr (E', ee, ei)" and "ee_real_separated E cf = Inr ee_real"
    and "c < shape_nconf cf"
  shows "ee ! c = (\<Sum>i<shape_nelec cf. ee_real c i)
                + (\<Sum>k<length (gweight E). gweight E ! k * (cmod (sum_e_exp E cf c k))\<^sup>2)"
proof -
  from ewald_electron_Inr [OF assms(1)] assms(2)
  have "ee = map (\<lambda>row. sum_list row + real (shape_nelec cf) / 2 * sum_list (gweight E))
               (mk_array2 (shape_nconf cf) (shape_nelec cf)
                  (\<lambda>c i. ee_real c i + 1 * ee_recip_separated E cf c i))"
    by auto
  with assms(3) have "ee ! c = (\<Sum>i<shape_nelec cf. ee_real c i + ee_recip_separated E cf c i)
       + real (shape_nelec cf) / 2 * sum_list (gweight E)"
    by (simp add: length_mk_array2 sum_list_mk_array2_row)
  also have "\<dots> = (\<Sum>i<shape_nelec cf. ee_real c i)
       + ((\<Sum>i<shape_nelec cf. ee_recip_separated E cf c i)
          + real (shape_nelec cf) / 2 * sum_list (gweight E))"
    by (simp add: sum.distrib)
  finally show ?thesis
    by (simp only: ee_recip_total)
qed

lemma ewald_electron_ei_nth:
  assumes "ewald_electron E cf = Inr (E', ee, ei)" and "c < shape_nconf cf"
  shows "ei ! c = (\<Sum>i<shape_nelec cf. ei_real_pos E (dist cf) (configs cf c i)
                     + 2 * ei_recip_pos E (configs cf c i))"
proof -
  from ewald_electron_Inr [OF assms(1)]
  have "ei = map sum_list (mk_array2 (shape_nconf cf) (shape_nelec cf)
                 (\<lambda>c i. ei_real_pos E (dist cf) (configs cf c i) + 2 * ei_recip_pos E (configs cf c i)))"
    by auto
  with assms(2) show ?thesis
    by (simp add: length_mk_array2 sum_list_mk_array2_row)
qed

lemma ewald_electron_cache:
  assumes "ewald_electron E cf = Inr (E', ee, ei)" and "ee_real_separated E cf = Inr ee_real"
  shows "ewalde_separated E' = Some (mk_array2 (shape_nconf cf) (shape_nelec cf)
           (\<lambda>c i. (ei_real_pos E (dist cf) (configs cf c i) + 2 * ei_recip_pos E (configs cf c i))
                  + (ee_real c i + ee_recip_separated E cf c i)))"
proof -
  from ewald_electron_Inr [OF assms(1)] assms(2)
  show ?thesis by (auto simp: map2_mk_array2)
qed

lemma ewald_electron_frame:
  assumes "ewald_electron E cf = Inr (E', ee, ei)"
  shows "E'\<lparr>ei_separated := ei_separated E, ee_separated := ee_separated E,
            ewalde_separated := ewalde_separated E\<rparr> = E"
  using ewald_electron_Inr [OF assms] by auto

lemma energy_Inr:
  assumes "energy E cf = Inr (E', ee, ei, ii)"
  shows "\<exists>ee0 ei0. ewald_electron E cf = Inr (E', ee0, ei0)
           \<and> ee = map (\<lambda>v. v + ee_const E' (int (shape_nelec cf))) ee0
           \<and> ei = map (\<lambda>v. v + ei_const E' (int (shape_nelec cf))) ei0
           \<and> ii = ion_ion E' + ii_const E'"
  using assms unfolding energy_def Let_def
  by (cases "ewald_electron E cf") auto

lemma ewald_electron_lengths:
  assumes "ewald_electron E cf = Inr (E', ee, ei)"
  shows "length ee = shape_nconf cf" "length ei = shape_nconf cf"
  using ewald_electron_Inr [OF assms] by (auto simp: length_mk_array2)

lemma ee_real_separated_total:
  "ewald_electron E cf = Inr r \<Longrightarrow> \<exists>ee_real. ee_real_separated E cf = Inr ee_real"
  unfolding ewald_electron_def Let_def by (cases "ee_real_separated E cf") auto

lemma ewald_ion_Inr:
  assumes "ewald_ion mid E = Inr (E2, v)"
  shows "\<exists>ie. E2 = E\<lparr>ion_exp := ie\<rparr>"
  using assms unfolding ewald_ion_def Let_def
  by (auto split: if_splits sum.splits)

lemma set_ewald_constants_Inr:
  assumes "set_ewald_constants mid E V = Inr E3"
  shows "\<exists>ie v. E3 = E\<lparr>ijconst := - pi / (V * alpha E ^ 2),
             ii_const := (sum_list (atom_charges E) ^ 2 - sum_list (map (\<lambda>z. z ^ 2) (atom_charges E))) / 2
                           * (- pi / (V * alpha E ^ 2))
                         + sum_list (map (\<lambda>z. z ^ 2) (atom_charges E))
                           * (- alpha E / sqrt pi + (- pi / (V * alpha E ^ 2)) / 2),
             ee_const := (\<lambda>ne. real_of_int (ne * (ne - 1)) / 2 * (- pi / (V * alpha E ^ 2))
                            + real_of_int ne * (- alpha E / sqrt pi + (- pi / (V * alpha E ^ 2)) / 2)),
             ei_const := (\<lambda>ne. - real_of_int ne * sum_list (atom_charges E) * (- pi / (V * alpha E ^ 2))),
             e_single := (\<lambda>ne. real_of_int (ne - 1) * (- pi / (V * alpha E ^ 2))
                            - sum_list (atom_charges E) * (- pi / (V * alpha E ^ 2))
                            + (- alpha E / sqrt pi + (- pi / (V * alpha E ^ 2)) / 2)),
             e_single_test := - sum_list (atom_charges E) * (- pi / (V * alpha E ^ 2))
                            + (- alpha E / sqrt pi + (- pi / (V * alpha E ^ 2)) / 2),
             ion_exp := ie, ion_ion := v\<rparr>"
  using assms unfolding set_ewald_constants_def Let_def
  by (auto split: sum.splits dest!: ewald_ion_Inr)

lemma set_up_reciprocal_ewald_sum_Inr:
  assumes "set_up_reciprocal_ewald_sum mid E gmax = Inr E3"
  shows "np_det (latvec E) \<noteq> 0 \<and>
         set_ewald_constants mid
           (E\<lparr>alpha := alpha_of (latvec E), gpoints := bigweight_gpoints (latvec E) gmax,
              gweight := map (gweight_of (np_det (latvec E)) (alpha_of (latvec E)))
                             (bigweight_gpoints (latvec E) gmax)\<rparr>)
           (np_det (latvec E)) = Inr E3"
  using assms
  unfolding set_up_reciprocal_ewald_sum_def np_inv_def Let_def alpha_of_def recvec_of_def
     bigweight_gpoints_def
  by (auto simp: filter_map comp_def split: if_splits)

lemma Ewald_init_Inr:
  assumes "Ewald_init mid cl gmax nlatvec = Inr E"
  shows "np_det (cell_lattice_vectors cl) \<noteq> 0"
    and "latvec E = cell_lattice_vectors cl"
    and "atom_coords E = cell_atom_coords cl"
    and "atom_charges E = cell_atom_charges cl"
    and "lattice_displacements E
           = map (\<lambda>t. vecmat (vec_of_int t) (cell_lattice_vectors cl)) (meshgrid3 nlatvec)"
    and "alpha E = alpha_of (cell_lattice_vectors cl)"
    and "gpoints E = bigweight_gpoints (cell_lattice_vectors cl) gmax"
    and "gweight E = map (gweight_of (np_det (cell_lattice_vectors cl)) (alpha_of (cell_lattice_vectors cl)))
                         (bigweight_gpoints (cell_lattice_vectors cl) gmax)"
    and "ijconst E = - pi / (np_det (cell_lattice_vectors cl) * alpha E ^ 2)"
    and "ee_const E = (\<lambda>ne. real_of_int (ne * (ne - 1)) / 2 * ijconst E
                            + real_of_int ne * (- alpha E / sqrt pi + ijconst E / 2))"
    and "ei_const E = (\<lambda>ne. - real_of_int ne * sum_list (cell_atom_charges cl) * ijconst E)"
    and "e_single E = (\<lambda>ne. real_of_int (ne - 1) * ijconst E
                            - sum_list (cell_atom_charges cl) * ijconst E
                            + (- alpha E / sqrt pi + ijconst E / 2))"
    and "e_single_test E = - sum_list (cell_atom_charges cl) * ijconst E
                            + (- alpha E / sqrt pi + ijconst E / 2)"
    and "ewalde_separated E = None"
proof -
  let ?E0 = "set_lattice_displacements
          (blank\<lparr>nelec := cell_nelec cl, atom_coords := cell_atom_coords cl,
                 atom_charges := cell_atom_charges cl, latvec := cell_lattice_vectors cl\<rparr>)
          nlatvec"
  have lv: "latvec ?E0 = cell_lattice_vectors cl"
    by (simp add: set_lattice_displacements_def)
  from assms have s: "set_up_reciprocal_ewald_sum mid ?E0 gmax = Inr E"
    by (simp add: Ewald_init_def)
  from set_up_reciprocal_ewald_sum_Inr [OF s] lv
  have d: "np_det (cell_lattice_vectors cl) \<noteq> 0"
    and c: "set_ewald_constants mid
           (?E0\<lparr>alpha := alpha_of (cell_lattice_vectors cl),
              gpoints := bigweight_gpoints (cell_lattice_vectors cl) gmax,
              gweight := map (gweight_of (np_det (cell_lattice_vectors cl)) (alpha_of (cell_lattice_vectors cl)))
                             (bigweight_gpoints (cell_lattice_vectors cl) gmax)\<rparr>)
           (np_det (cell_lattice_vectors cl)) = Inr E"
    by simp_all
  from set_ewald_constants_Inr [OF c] obtain ie v where
    E: "E = ?E0\<lparr>alpha := alpha_of (cell_lattice_vectors cl),
              gpoints := bigweight_gpoints (cell_lattice_vectors cl) gmax,
              gweight := map (gweight_of (np_det (cell_lattice_vectors cl)) (alpha_of (cell_lattice_vectors cl)))
                             (bigweight_gpoints (cell_lattice_vectors cl) gmax),
              ijconst := - pi / (np_det (cell_lattice_vectors cl) * alpha_of (cell_lattice_vectors cl) ^ 2),
             ii_const := (sum_list (cell_atom_charges cl) ^ 2 - sum_list (map (\<lambda>z. z ^ 2) (cell_atom_charges cl))) / 2
                           * (- pi / (np_det (cell_lattice_vectors cl) * alpha_of (cell_lattice_vectors cl) ^ 2))
                         + sum_list (map (\<lambda>z. z ^ 2) (cell_atom_charges cl))
                           * (- alpha_of (cell_lattice_vectors cl) / sqrt pi + (- pi / (np_det (cell_lattice_vectors cl) * alpha_of (cell_lattice_vectors cl) ^ 2)) / 2),
             ee_const := (\<lambda>ne. real_of_int (ne * (ne - 1)) / 2 * (- pi / (np_det (cell_lattice_vectors cl) * alpha_of (cell_lattice_vectors cl) ^ 2))
                            + real_of_int ne * (- alpha_of (cell_lattice_vectors cl) / sqrt pi + (- pi / (np_det (cell_lattice_vectors cl) * alpha_of (cell_lattice_vectors cl) ^ 2)) / 2)),
             ei_const := (\<lambda>ne. - real_of_int ne * sum_list (cell_atom_charges cl) * (- pi / (np_det (cell_lattice_vectors cl) * alpha_of (cell_lattice_vectors cl) ^ 2))),
             e_single := (\<lambda>ne. real_of_int (ne - 1) * (- pi / (np_det (cell_lattice_vectors cl) * alpha_of (cell_lattice_vectors cl) ^ 2))
                            - sum_list (cell_atom_charges cl) * (- pi / (np_det (cell_lattice_vectors cl) * alpha_of (cell_lattice_vectors cl) ^ 2))
                            + (- alpha_of (cell_lattice_vectors cl) / sqrt pi + (- pi / (np_det (cell_lattice_vectors cl) * alpha_of (cell_lattice_vectors cl) ^ 2)) / 2)),
             e_single_test := - sum_list (cell_atom_charges cl) * (- pi / (np_det (cell_lattice_vectors cl) * alpha_of (cell_lattice_vectors cl) ^ 2))
                            + (- alpha_of (cell_lattice_vectors cl) / sqrt pi + (- pi / (np_det (cell_lattice_vectors cl) * alpha_of (cell_lattice_vectors cl) ^ 2)) / 2),
             ion_exp := ie, ion_ion := v\<rparr>"
    by (auto simp: set_lattice_displacements_def)
  show "np_det (cell_lattice_vectors cl) \<noteq> 0" by (rule d)
  show "latvec E = cell_lattice_vectors cl" by (subst E) (simp add: set_lattice_displacements_def)
  show "atom_coords E = cell_atom_coords cl" by (subst E) (simp add: set_lattice_displacements_def)
  show "atom_charges E = cell_atom_charges cl" by (subst E) (simp add: set_lattice_displacements_def)
  show "lattice_displacements E
           = map (\<lambda>t. vecmat (vec_of_int t) (cell_lattice_vectors cl)) (meshgrid3 nlatvec)"
    by (subst E) (simp add: set_lattice_displacements_def)
  show a: "alpha E = alpha_of (cell_lattice_vectors cl)" by (subst E) simp
  show "gpoints E = bigweight_gpoints (cell_lattice_vectors cl) gmax" by (subst E) simp
  show "gweight E = map (gweight_of (np_det (cell_lattice_vectors cl)) (alpha_of (cell_lattice_vectors cl)))
                         (bigweight_gpoints (cell_lattice_vectors cl) gmax)" by (subst E) simp
  show i: "ijconst E = - pi / (np_det (cell_lattice_vectors cl) * alpha E ^ 2)"
    unfolding a by (subst E) simp
  show "ee_const E = (\<lambda>ne. real_of_int (ne * (ne - 1)) / 2 * ijconst E
                            + real_of_int ne * (- alpha E / sqrt pi + ijconst E / 2))"
    unfolding i a by (subst E) simp
  show "ei_const E = (\<lambda>ne. - real_of_int ne * sum_list (cell_atom_charges cl) * ijconst E)"
    unfolding i a by (subst E) simp
  show "e_single E = (\<lambda>ne. real_of_int (ne - 1) * ijconst E
                            - sum_list (cell_atom_charges cl) * ijconst E
                            + (- alpha E / sqrt pi + ijconst E / 2))"
    unfolding i a by (subst E) simp
  show "e_single_test E = - sum_list (cell_atom_charges cl) * ijconst E
                            + (- alpha E / sqrt pi + ijconst E / 2)"
    unfolding i a by (subst E) simp
  show "ewalde_separated E = None"
    by (subst E) (simp add: set_lattice_displacements_def blank_def)
qed

lemma mat_cases:
  obtains a b c d e f g h i where "(m::mat) = ((a, b, c), (d, e, f), (g, h, i))"
  by (metis prod_cases3)

lemma crossproduct_eq:
  "np_det m \<noteq> 0 \<Longrightarrow> mscale (np_det m) (transpose3 (recvec_of m)) = transpose3 (adjugate m)"
  unfolding recvec_of_def
  by (rule mat_cases [of m]) auto

lemma sum3_squares_eq_0: "(x::real) * x + y * y + z * z = 0 \<longleftrightarrow> x = 0 \<and> y = 0 \<and> z = 0"
proof
  assume h: "x * x + y * y + z * z = 0"
  have "0 \<le> x * x" "0 \<le> y * y" "0 \<le> z * z" by simp_all
  with h have "x * x = 0" "y * y = 0" "z * z = 0" by linarith+
  then show "x = 0 \<and> y = 0 \<and> z = 0" by simp
qed simp

lemma norm3_pos_iff: "0 < norm3 v \<longleftrightarrow> v \<noteq> (0, 0, 0)"
proof (cases v rule: prod_cases3)
  case (fields x y z)
  have "0 \<le> x * x + y * y + z * z" by simp
  with sum3_squares_eq_0 [of x y z] show ?thesis
    unfolding fields norm3_def by (auto simp: less_le)
qed

lemma heights_rows:
  assumes "np_det m \<noteq> 0"
  shows "\<forall>p \<in> set (zip (rows (transpose3 (adjugate m))) (rows m)). vdot (fst p) (snd p) = np_det m"
  by (rule mat_cases [of m]) (simp add: algebra_simps)

lemma smallestheight_pos:
  assumes "np_det m \<noteq> 0"
  shows "0 < smallestheight m (mscale (np_det m) (transpose3 (recvec_of m)))"
proof -
  let ?cp = "transpose3 (adjugate m)"
  let ?hs = "map2 (\<lambda>cp a. \<bar>vdot cp a\<bar> / norm3 cp) (rows ?cp) (rows m)"
  have ne: "set ?hs \<noteq> {}"
    by (rule mat_cases [of m]) simp
  have "0 < h" if "h \<in> set ?hs" for h
  proof -
    from that obtain p where p: "p \<in> set (zip (rows ?cp) (rows m))"
      and h: "h = \<bar>vdot (fst p) (snd p)\<bar> / norm3 (fst p)"
      by (auto simp: case_prod_beta)
    from heights_rows [OF assms] p have d: "vdot (fst p) (snd p) = np_det m" by blast
    have "fst p \<noteq> (0, 0, 0)"
    proof
      assume "fst p = (0, 0, 0)"
      then have "vdot (fst p) (snd p) = 0"
        by (cases "snd p" rule: prod_cases3) simp
      with d assms show False by simp
    qed
    then have "0 < norm3 (fst p)" by (simp add: norm3_pos_iff)
    with d assms show ?thesis unfolding h by simp
  qed
  with ne have "0 < Min (set ?hs)" by simp
  then show ?thesis
    unfolding smallestheight_def crossproduct_eq [OF assms] .
qed

lemma alpha_of_pos: "np_det m \<noteq> 0 \<Longrightarrow> 0 < alpha_of m"
  unfolding alpha_of_def using smallestheight_pos [of m] by simp


lemma raw_pairs_valid:
  "p \<in> set (dist_matrix raw_distance nconf n x) \<Longrightarrow> fst (fst p) < n \<and> snd (fst p) < n"
  by (auto simp: raw_distance_def)

lemma ee_real_separated_raw:
  "dist cf = raw_distance \<Longrightarrow> \<exists>f. ee_real_separated E cf = Inr f"
  unfolding ee_real_separated_def Let_def
  using raw_pairs_valid by auto

lemma ewald_electron_raw:
  "dist cf = raw_distance \<Longrightarrow> shape_ndim cf = 3 \<Longrightarrow>
     \<exists>E' ee ei. ewald_electron E cf = Inr (E', ee, ei)"
  using ee_real_separated_raw [of cf E]
  unfolding ewald_electron_def Let_def by auto

lemma energy_raw:
  "dist cf = raw_distance \<Longrightarrow> shape_ndim cf = 3 \<Longrightarrow>
     \<exists>E' ee ei ii. energy E cf = Inr (E', ee, ei, ii)"
  using ewald_electron_raw [of cf E]
  unfolding energy_def Let_def by auto

lemma energy_separated_after:
  "ewald_electron E cf = Inr (E', ee, ei) \<Longrightarrow> \<exists>sep. energy_separated E' cf2 = Inr (E', sep)"
  by (drule ewald_electron_Inr) (auto simp: energy_separated_def)

lemma ewald_ion_one_atom:
  "length (atom_charges E) = 1 \<Longrightarrow> ewald_ion mid E \<noteq> Inl e"
  unfolding ewald_ion_def Let_def by simp

lemma set_ewald_constants_one_atom:
  "length (atom_charges E) = 1 \<Longrightarrow> \<exists>E3. set_ewald_constants mid E V = Inr E3"
  unfolding set_ewald_constants_def Let_def
  by (simp add: ewald_ion_one_atom split: sum.splits prod.splits)

lemma Ewald_init_one_atom:
  assumes "np_det (cell_lattice_vectors cl) \<noteq> 0" and "length (cell_atom_charges cl) = 1"
  shows "\<exists>E. Ewald_init mid cl gmax nlatvec = Inr E"
  using assms
  unfolding Ewald_init_def set_up_reciprocal_ewald_sum_def np_inv_def Let_def
  by (simp add: set_lattice_displacements_def set_ewald_constants_one_atom)

lemma unit_det: "np_det ((1, 0, 0), (0, 1, 0), (0, 0, 1)) = 1"
  by simp

lemma unit_recvec: "recvec_of ((1, 0, 0), (0, 1, 0), (0, 0, 1)) = ((1, 0, 0), (0, 1, 0), (0, 0, 1))"
  by (simp add: recvec_of_def)

lemma unit_alpha: "alpha_of ((1, 0, 0), (0, 1, 0), (0, 0, 1)) = 5"
  by (simp add: alpha_of_def unit_recvec smallestheight_def norm3_def)

lemma unit_ewald_ok: "Ewald_init (\<lambda>lv. raw_distance) unit_cell 1 1 = Inr unit_ewald"
proof -
  have "\<exists>E. Ewald_init (\<lambda>lv. raw_distance) unit_cell 1 1 = Inr E"
    by (rule Ewald_init_one_atom) (simp_all add: unit_cell_def)
  then show ?thesis
    unfolding unit_ewald_def by auto
qed

lemma gweight_big:
  assumes "Ewald_init mid cl gmax nlatvec = Inr E" and "w \<in> set (gweight E)"
  shows "1 / 10 ^ 10 < w"
  using assms(2) unfolding Ewald_init_Inr(8) [OF assms(1)] bigweight_gpoints_def
  by auto

lemma exp_minus_one_ge: "1 / 3 \<le> exp (- 1 :: real)"
proof -
  have "exp (1::real) * exp (- 1) = 1" by (simp add: exp_add [symmetric])
  moreover have "exp (1::real) * exp (- 1) \<le> 3 * exp (- 1)"
    by (intro mult_right_mono exp_le) simp
  ultimately show ?thesis by simp
qed

lemma unit_weight_big:
  "1 / 10 ^ 10 < gweight_of 1 5 (2 * pi, 0, 0)"
proof -
  have p3: "0 < pi" by simp
  have p4: "pi < 4" by (rule pi_less_4)
  have "pi * pi < 4 * 4" using p4 by (intro mult_strict_mono) simp_all
  then have "- 1 \<le> - (pi * pi) / 25" by simp
  then have "exp (- 1) \<le> exp (- (pi * pi) / 25)" by simp
  with exp_minus_one_ge have e: "1 / 3 \<le> exp (- (pi * pi) / 25)" by linarith
  have w: "gweight_of 1 5 (2 * pi, 0, 0) = exp (- (pi * pi) / 25) / pi"
    using p3 by (simp add: gweight_of_def power2_eq_square field_simps)
  have "(1 / 10 ^ 10 :: real) < 1 / 12" by simp
  also have "1 / 12 < (1 / 3) / pi" using p3 p4 by (simp add: field_simps)
  also have "\<dots> \<le> exp (- (pi * pi) / 25) / pi"
    using e p3 by (intro divide_right_mono) simp_all
  finally show ?thesis unfolding w .
qed

lemma unit_gpoint_mem:
  "(2 * pi, 0, 0) \<in> set (gpoints_all ((1, 0, 0), (0, 1, 0), (0, 0, 1)) 1)"
proof -
  have "(1, 0, 0) \<in> set (filter positive_octants (meshgrid3 1))"
    by (simp add: meshgrid3_def)
  then have "vscale (2 * pi) (vecmat (vec_of_int (1, 0, 0)) ((1, 0, 0), (0, 1, 0), (0, 0, 1)))
      \<in> set (gpoints_all ((1, 0, 0), (0, 1, 0), (0, 0, 1)) 1)"
    unfolding gpoints_all_def set_map by (rule imageI)
  then show ?thesis by simp
qed

lemma unit_gpoints_mem: "(2 * pi, 0, 0) \<in> set (gpoints unit_ewald)"
  unfolding Ewald_init_Inr(7) [OF unit_ewald_ok] bigweight_gpoints_def
  using unit_gpoint_mem unit_weight_big
  by (simp add: unit_cell_def unit_recvec unit_alpha)

lemma unit_gweight_sum_pos: "0 < sum_list (gweight unit_ewald)"
proof -
  have ne: "gweight unit_ewald \<noteq> []"
    using unit_gpoints_mem
    unfolding Ewald_init_Inr(7,8) [OF unit_ewald_ok] by auto
  have pos: "0 < w" if "w \<in> set (gweight unit_ewald)" for w
    using gweight_big [OF unit_ewald_ok that] by (simp add: less_trans [rotated])
  have "xs \<noteq> [] \<Longrightarrow> (\<forall>w \<in> set xs. 0 < w) \<Longrightarrow> 0 < sum_list xs" for xs :: "real list"
    by (induction xs) (auto intro: add_pos_nonneg sum_list_nonneg less_imp_le)
  with ne pos show ?thesis by blast
qed

lemma ewald_electron_consts:
  assumes "ewald_electron E cf = Inr (E', ee, ei)"
  shows "gweight E' = gweight E" "e_single E' = e_single E" "ee_const E' = ee_const E"
    "ei_const E' = ei_const E" "ijconst E' = ijconst E"
  using ewald_electron_Inr [OF assms] by auto

lemma energy_with_test_pos_Inr:
  "energy_with_test_pos E cf epos = Inr (E', V) \<Longrightarrow> E' = E"
  unfolding energy_with_test_pos_def Let_def by (auto split: if_splits)

lemma energy_separated_Inr:
  "energy_separated E cf = Inr (E', sep) \<Longrightarrow>
     E' = E \<and> (\<exists>s. ewalde_separated E = Some s \<and>
                    sep = map (map (\<lambda>v. e_single E (int (shape_nelec cf)) + v)) s)"
  unfolding energy_separated_def Let_def by (auto split: option.splits)

lemma energy_with_test_pos_one_conf:
  "shape_nconf cf = 1 \<Longrightarrow> shape_ndim cf = 3 \<Longrightarrow>
     \<exists>V. energy_with_test_pos E cf epos = Inr (E, V)"
  unfolding energy_with_test_pos_def Let_def by simp

lemma energy_parts:
  assumes en: "energy E cf = Inr (E', ee, ei, ii)"
    and sep: "energy_separated E' cf = Inr (E'', sep)"
    and c: "c < shape_nconf cf"
  shows "\<exists>A. sep ! c = map (\<lambda>i. e_single E' (int (shape_nelec cf)) + A i) [0..<shape_nelec cf]
           \<and> ee ! c + ei ! c = (\<Sum>i<shape_nelec cf. A i)
                 + real (shape_nelec cf) / 2 * sum_list (gweight E')
                 + ee_const E' (int (shape_nelec cf)) + ei_const E' (int (shape_nelec cf))"
proof -
  let ?n = "shape_nelec cf"
  from energy_Inr [OF en] obtain ee0 ei0 where
    el: "ewald_electron E cf = Inr (E', ee0, ei0)"
    and ee: "ee = map (\<lambda>v. v + ee_const E' (int ?n)) ee0"
    and ei: "ei = map (\<lambda>v. v + ei_const E' (int ?n)) ei0"
    by blast
  from ee_real_separated_total [OF el] obtain ee_real where
    er: "ee_real_separated E cf = Inr ee_real" by blast
  let ?a = "\<lambda>c i. ei_real_pos E (dist cf) (configs cf c i) + 2 * ei_recip_pos E (configs cf c i)"
  let ?b = "\<lambda>c i. ee_real c i + ee_recip_separated E cf c i"
  have cache: "ewalde_separated E' = Some (mk_array2 (shape_nconf cf) ?n (\<lambda>c i. ?a c i + ?b c i))"
    by (rule ewald_electron_cache [OF el er])
  have gw: "gweight E' = gweight E"
    by (rule ewald_electron_consts(1) [OF el])
  from sep cache have "sep = map (map (\<lambda>v. e_single E' (int ?n) + v))
         (mk_array2 (shape_nconf cf) ?n (\<lambda>c i. ?a c i + ?b c i))"
    by (auto simp: energy_separated_def)
  with c have 1: "sep ! c = map (\<lambda>i. e_single E' (int ?n) + (?a c i + ?b c i)) [0..<?n]"
    by (simp add: length_mk_array2 mk_array2_nth comp_def)
  have eec: "ee ! c = ee0 ! c + ee_const E' (int ?n)"
    using ee c ewald_electron_lengths [OF el] by simp
  have eic: "ei ! c = ei0 ! c + ei_const E' (int ?n)"
    using ei c ewald_electron_lengths [OF el] by simp
  have ee0: "ee0 ! c = (\<Sum>i<?n. ?b c i) + real ?n / 2 * sum_list (gweight E)"
    using ewald_electron_ee_nth [OF el er c] ee_recip_total [where cf=cf and E=E and c=c]
    by (simp add: sum.distrib)
  have ei0: "ei0 ! c = (\<Sum>i<?n. ?a c i)"
    by (rule ewald_electron_ei_nth [OF el c])
  have 2: "ee ! c + ei ! c = (\<Sum>i<?n. ?a c i + ?b c i)
                 + real ?n / 2 * sum_list (gweight E')
                 + ee_const E' (int ?n) + ei_const E' (int ?n)"
    unfolding eec eic ee0 ei0 gw by (simp add: sum.distrib)
  show ?thesis
    by (rule exI [of _ "\<lambda>i. ?a c i + ?b c i"]) (rule conjI [OF 1 2])
qed

lemma sum_list_map_minus_const:
  "sum_list (map (\<lambda>v. v - (e::real)) xs) = sum_list xs - real (length xs) * e"
  by (induction xs) (simp_all add: algebra_simps)

lemma single_particle_ee:
  assumes n: "shape_nelec cf = 1" and el: "ewald_electron E cf = Inr (E', ee, ei)"
    and c: "c < shape_nconf cf"
  shows "ee_real_separated E cf = Inr (\<lambda>c i. 0) \<and> ee ! c = sum_list (gweight E)"
proof -
  have er: "ee_real_separated E cf = Inr (\<lambda>c i. 0)"
    by (simp add: ee_real_separated_def n)
  have "sum_e_exp E cf c k = e_expGdotR E (configs cf c 0) k" for k
    by (simp add: sum_e_exp_def n)
  then have "cmod (sum_e_exp E cf c k) = 1" for k
    by (simp add: e_expGdotR_def)
  with ewald_electron_ee_nth [OF el er c] have "ee ! c = (\<Sum>k<length (gweight E). gweight E ! k)"
    by simp
  with er show ?thesis by (simp add: sum_list_gweight)
qed














lemma ewald_electron_mismatch: "shape_ndim cf \<noteq> 3 \<Longrightarrow> isl (ewald_electron E cf)"
  unfolding ewald_electron_def Let_def
  by (cases "ee_real_separated E cf") simp_all

lemma energy_mismatch: "shape_ndim cf \<noteq> 3 \<Longrightarrow> isl (energy E cf)"
  using ewald_electron_mismatch [of cf E]
  unfolding energy_def Let_def
  by (cases "ewald_electron E cf") simp_all

section \<open>The claims\<close>

text \<open>
  C9. Every evaluation method leaves the setup attributes as they are: \<open>ewald_electron\<close> and
  \<open>energy\<close> return the object with at most the three separated-energy attributes changed,
  \<open>energy_separated\<close> and \<open>energy_with_test_pos\<close> return the object unchanged.
\<close>

theorem evaluation_frame:
  "(\<forall>E' ee ei. ewald_electron E cf = Inr (E', ee, ei) \<longrightarrow>
       E'\<lparr>ei_separated := ei_separated E, ee_separated := ee_separated E,
          ewalde_separated := ewalde_separated E\<rparr> = E)
   \<and> (\<forall>E' ee ei ii. energy E cf = Inr (E', ee, ei, ii) \<longrightarrow>
       E'\<lparr>ei_separated := ei_separated E, ee_separated := ee_separated E,
          ewalde_separated := ewalde_separated E\<rparr> = E)
   \<and> (\<forall>E' sep. energy_separated E cf = Inr (E', sep) \<longrightarrow> E' = E)
   \<and> (\<forall>E' V. energy_with_test_pos E cf epos = Inr (E', V) \<longrightarrow> E' = E)"
proof (intro conjI allI impI)
  fix E' ee ei
  assume "ewald_electron E cf = Inr (E', ee, ei)"
  then show "E'\<lparr>ei_separated := ei_separated E, ee_separated := ee_separated E,
          ewalde_separated := ewalde_separated E\<rparr> = E"
    by (rule ewald_electron_frame)
next
  fix E' ee ei ii
  assume "energy E cf = Inr (E', ee, ei, ii)"
  from energy_Inr [OF this] obtain ee0 ei0 where "ewald_electron E cf = Inr (E', ee0, ei0)"
    by blast
  then show "E'\<lparr>ei_separated := ei_separated E, ee_separated := ee_separated E,
          ewalde_separated := ewalde_separated E\<rparr> = E"
    by (rule ewald_electron_frame)
next
  fix E' sep
  assume "energy_separated E cf = Inr (E', sep)"
  then show "E' = E" by (simp add: energy_separated_Inr)
next
  fix E' V
  assume "energy_with_test_pos E cf epos = Inr (E', V)"
  then show "E' = E" by (rule energy_with_test_pos_Inr)
qed

theorem evaluation_frame_witness:
  "\<exists>E1 ee ei ii sep V.
      ewald_electron unit_ewald two_particles = Inr (E1, ee, ei)
    \<and> energy unit_ewald two_particles = Inr (E1, map (\<lambda>v. v + ee_const E1 2) ee, map (\<lambda>v. v + ei_const E1 2) ei, ii)
    \<and> energy_separated E1 two_particles = Inr (E1, sep)
    \<and> energy_with_test_pos unit_ewald one_particle (\<lambda>c. (0, 0, 1 / 2)) = Inr (unit_ewald, V)
    \<and> E1\<lparr>ei_separated := ei_separated unit_ewald, ee_separated := ee_separated unit_ewald,
          ewalde_separated := ewalde_separated unit_ewald\<rparr> = unit_ewald"
proof -
  have d: "dist two_particles = raw_distance" by (simp add: two_particles_def)
  have n3: "shape_ndim two_particles = 3" by (simp add: two_particles_def)
  from ewald_electron_raw [OF d n3] obtain E1 ee ei where
    el: "ewald_electron unit_ewald two_particles = Inr (E1, ee, ei)" by blast
  then have en: "energy unit_ewald two_particles
      = Inr (E1, map (\<lambda>v. v + ee_const E1 2) ee, map (\<lambda>v. v + ei_const E1 2) ei,
             ion_ion E1 + ii_const E1)"
    by (simp add: energy_def two_particles_def)
  from energy_separated_after [OF el] obtain sep where
    es: "energy_separated E1 two_particles = Inr (E1, sep)" by blast
  from energy_with_test_pos_one_conf [of one_particle unit_ewald "\<lambda>c. (0, 0, 1 / 2)"]
  obtain V where
    tp: "energy_with_test_pos unit_ewald one_particle (\<lambda>c. (0, 0, 1 / 2)) = Inr (unit_ewald, V)"
    by (auto simp: one_particle_def)
  from evaluation_frame [of unit_ewald two_particles "\<lambda>c. (0, 0, 1 / 2)"] el
  have "E1\<lparr>ei_separated := ei_separated unit_ewald, ee_separated := ee_separated unit_ewald,
          ewalde_separated := ewalde_separated unit_ewald\<rparr> = unit_ewald"
    by blast
  with el en es tp show ?thesis by blast
qed

text \<open>
  C10. After a full-batch evaluation has left its cache, \<open>energy_separated\<close> returns the same
  result for any two batches of the same shape: the positions in its argument are not read.
\<close>

theorem energy_separated_ignores_positions:
  assumes "ewald_electron E0 cf0 = Inr (E, ee, ei)"
    and "shape_nconf c1 = shape_nconf c2" and "shape_nelec c1 = shape_nelec c2"
  shows "\<exists>sep. energy_separated E c1 = Inr (E, sep) \<and> energy_separated E c2 = Inr (E, sep)"
proof -
  from ewald_electron_Inr [OF assms(1)] obtain s where "ewalde_separated E = Some s"
    by auto
  with assms(3) show ?thesis
    by (simp add: energy_separated_def)
qed

theorem energy_separated_ignores_positions_witness:
  "\<exists>E ee ei sep.
      ewald_electron unit_ewald two_particles = Inr (E, ee, ei)
    \<and> shape_nconf two_particles = shape_nconf two_other_particles
    \<and> shape_nelec two_particles = shape_nelec two_other_particles
    \<and> configs two_particles 0 0 \<noteq> configs two_other_particles 0 0
    \<and> energy_separated E two_particles = Inr (E, sep)
    \<and> energy_separated E two_other_particles = Inr (E, sep)"
proof -
  have d: "dist two_particles = raw_distance" by (simp add: two_particles_def)
  have n3: "shape_ndim two_particles = 3" by (simp add: two_particles_def)
  from ewald_electron_raw [OF d n3] obtain E ee ei where
    el: "ewald_electron unit_ewald two_particles = Inr (E, ee, ei)" by blast
  have s: "shape_nconf two_particles = shape_nconf two_other_particles"
    "shape_nelec two_particles = shape_nelec two_other_particles"
    "configs two_particles 0 0 \<noteq> configs two_other_particles 0 0"
    by (simp_all add: two_particles_def two_other_particles_def)
  from energy_separated_ignores_positions [OF el s(1,2)] el s show ?thesis by blast
qed

text \<open>
  C2. The mobile-mobile energy returned by \<open>ewald_electron\<close> is its real-space part plus a
  reciprocal-space part: the per-particle terms
  \<open>\<Sum>\<^sub>G weight(G) * (Re(conj(S\<^sub>e(G)) * exp(i G.x\<^sub>i)) - 0.5)\<close>, summed over the particles, plus the
  compensating \<open>Ne / 2 * \<Sum>\<^sub>G weight(G)\<close>. That reciprocal-space part equals
  \<open>\<Sum>\<^sub>G weight(G) * |S\<^sub>e(G)|\<^sup>2\<close>, where \<open>S\<^sub>e(G) = \<Sum>\<^sub>i exp(i G.x\<^sub>i)\<close> is the structure factor of the
  configuration. The phases and the structure factor are written out: \<open>exp(i t)\<close> is
  \<open>cis t\<close>, and \<open>G.x\<close> is \<open>vdot x G\<close>.
\<close>

theorem reciprocal_total_structure_factor:
  assumes "ewald_electron E cf = Inr (E', ee, ei)"
    and "ee_real_separated E cf = Inr ee_real"
    and "c < shape_nconf cf"
  shows "ee ! c = (\<Sum>i<shape_nelec cf. ee_real c i)
           + ((\<Sum>i<shape_nelec cf. \<Sum>k<length (gweight E).
                 (Re (cnj (\<Sum>j<shape_nelec cf. cis (vdot (configs cf c j) (gpoints E ! k)))
                        * cis (vdot (configs cf c i) (gpoints E ! k))) - 1 / 2) * gweight E ! k)
              + real (shape_nelec cf) / 2 * sum_list (gweight E))
       \<and> (\<Sum>i<shape_nelec cf. \<Sum>k<length (gweight E).
                 (Re (cnj (\<Sum>j<shape_nelec cf. cis (vdot (configs cf c j) (gpoints E ! k)))
                        * cis (vdot (configs cf c i) (gpoints E ! k))) - 1 / 2) * gweight E ! k)
              + real (shape_nelec cf) / 2 * sum_list (gweight E)
          = (\<Sum>k<length (gweight E).
               gweight E ! k
               * (cmod (\<Sum>i<shape_nelec cf. cis (vdot (configs cf c i) (gpoints E ! k))))\<^sup>2)"
proof -
  have 1: "ee ! c = (\<Sum>i<shape_nelec cf. ee_real c i)
                + (\<Sum>k<length (gweight E). gweight E ! k * (cmod (sum_e_exp E cf c k))\<^sup>2)"
    by (rule ewald_electron_ee_nth [OF assms])
  have 2: "(\<Sum>i<shape_nelec cf. ee_recip_separated E cf c i)
     + real (shape_nelec cf) / 2 * sum_list (gweight E)
     = (\<Sum>k<length (gweight E). gweight E ! k * (cmod (sum_e_exp E cf c k))\<^sup>2)"
    by (rule ee_recip_total)
  from 1 2 have 3: "ee ! c = (\<Sum>i<shape_nelec cf. ee_real c i)
      + ((\<Sum>i<shape_nelec cf. ee_recip_separated E cf c i)
         + real (shape_nelec cf) / 2 * sum_list (gweight E))"
    by simp
  show ?thesis
    using conjI [OF 3 2]
    unfolding ee_recip_separated_def sum_e_exp_def e_expGdotR_def .
qed

theorem reciprocal_total_structure_factor_witness:
  "\<exists>E' ee ei ee_real.
     ewald_electron unit_ewald two_particles = Inr (E', ee, ei)
   \<and> ee_real_separated unit_ewald two_particles = Inr ee_real
   \<and> (0::nat) < shape_nconf two_particles
   \<and> ee ! 0 = (\<Sum>i<shape_nelec two_particles. ee_real 0 i)
           + ((\<Sum>i<shape_nelec two_particles. \<Sum>k<length (gweight unit_ewald).
                 (Re (cnj (\<Sum>j<shape_nelec two_particles. cis (vdot (configs two_particles 0 j) (gpoints unit_ewald ! k)))
                        * cis (vdot (configs two_particles 0 i) (gpoints unit_ewald ! k))) - 1 / 2) * gweight unit_ewald ! k)
              + real (shape_nelec two_particles) / 2 * sum_list (gweight unit_ewald))
   \<and> (\<Sum>i<shape_nelec two_particles. \<Sum>k<length (gweight unit_ewald).
                 (Re (cnj (\<Sum>j<shape_nelec two_particles. cis (vdot (configs two_particles 0 j) (gpoints unit_ewald ! k)))
                        * cis (vdot (configs two_particles 0 i) (gpoints unit_ewald ! k))) - 1 / 2) * gweight unit_ewald ! k)
              + real (shape_nelec two_particles) / 2 * sum_list (gweight unit_ewald)
          = (\<Sum>k<length (gweight unit_ewald).
               gweight unit_ewald ! k
               * (cmod (\<Sum>i<shape_nelec two_particles. cis (vdot (configs two_particles 0 i) (gpoints unit_ewald ! k))))\<^sup>2)"
proof -
  have d: "dist two_particles = raw_distance" by (simp add: two_particles_def)
  have n3: "shape_ndim two_particles = 3" by (simp add: two_particles_def)
  from ewald_electron_raw [OF d n3] obtain E' ee ei where
    el: "ewald_electron unit_ewald two_particles = Inr (E', ee, ei)" by blast
  from ee_real_separated_raw [OF d] obtain ee_real where
    er: "ee_real_separated unit_ewald two_particles = Inr ee_real" by blast
  have c: "(0::nat) < shape_nconf two_particles" by (simp add: two_particles_def)
  from reciprocal_total_structure_factor [OF el er c] el er c show ?thesis by blast
qed

text \<open>
  C8. The constants that the constructor stores equal their closed forms. With V the
  determinant of the lattice vectors, \<open>C_pair = -pi / (V * alpha\<^sup>2)\<close> and
  \<open>C_self = -alpha / sqrt pi + C_pair / 2\<close>: the mobile-mobile constant is
  \<open>Ne * (Ne - 1) / 2 * C_pair + Ne * C_self\<close>, the mobile-fixed constant is
  \<open>-Ne * (sum of the fixed charges) * C_pair\<close> and the per-particle constant is
  \<open>(Ne - 1) * C_pair - (sum of the fixed charges) * C_pair + C_self\<close>, for every Ne.
\<close>

theorem ewald_constants_closed_forms:
  assumes "Ewald_init mid cl gmax nlatvec = Inr E"
  shows "ee_const E ne = real_of_int ne * (real_of_int ne - 1) / 2
                           * C_pair (np_det (cell_lattice_vectors cl)) (alpha E)
                         + real_of_int ne * C_self (np_det (cell_lattice_vectors cl)) (alpha E)
       \<and> ei_const E ne = - real_of_int ne * sum_list (cell_atom_charges cl)
                           * C_pair (np_det (cell_lattice_vectors cl)) (alpha E)
       \<and> e_single E ne = (real_of_int ne - 1) * C_pair (np_det (cell_lattice_vectors cl)) (alpha E)
                         - sum_list (cell_atom_charges cl)
                           * C_pair (np_det (cell_lattice_vectors cl)) (alpha E)
                         + C_self (np_det (cell_lattice_vectors cl)) (alpha E)"
  unfolding Ewald_init_Inr(10,11,12) [OF assms] Ewald_init_Inr(9) [OF assms] C_self_def C_pair_def
  by simp

theorem ewald_constants_closed_forms_witness:
  "Ewald_init (\<lambda>lv. raw_distance) unit_cell 1 1 = Inr unit_ewald
   \<and> ee_const unit_ewald 3 = 3 * (3 - 1) / 2 * C_pair 1 5 + 3 * C_self 1 5
   \<and> ei_const unit_ewald 3 = - 3 * 2 * C_pair 1 5
   \<and> e_single unit_ewald 3 = (3 - 1) * C_pair 1 5 - 2 * C_pair 1 5 + C_self 1 5"
proof -
  have a: "alpha unit_ewald = 5"
    unfolding Ewald_init_Inr(6) [OF unit_ewald_ok] by (simp add: unit_cell_def unit_alpha)
  from ewald_constants_closed_forms [OF unit_ewald_ok, of 3] unit_ewald_ok show ?thesis
    by (simp add: a unit_cell_def)
qed

text \<open>
  C1, as amended. After \<open>energy\<close> on a batch, take the per-particle values that
  \<open>energy_separated\<close> returns for a configuration, remove the per-particle constant
  \<open>e_single(Ne)\<close> from each, and sum over the Ne particles: that sum, plus the compensating
  \<open>Ne / 2 * \<Sum>\<^sub>G weight(G)\<close> and the constants \<open>ee_const(Ne) + ei_const(Ne)\<close>, is the
  \<open>ee + ei\<close> that \<open>energy\<close> returned for the configuration.
\<close>

theorem separated_sum_with_compensation:
  assumes "energy E cf = Inr (E', ee, ei, ii)"
    and "energy_separated E' cf = Inr (E'', sep)"
    and "c < shape_nconf cf"
  shows "sum_list (map (\<lambda>v. v - e_single E' (int (shape_nelec cf))) (sep ! c))
           + real (shape_nelec cf) / 2 * sum_list (gweight E')
           + ee_const E' (int (shape_nelec cf)) + ei_const E' (int (shape_nelec cf))
         = ee ! c + ei ! c"
proof -
  from energy_parts [OF assms] obtain A where
    1: "sep ! c = map (\<lambda>i. e_single E' (int (shape_nelec cf)) + A i) [0..<shape_nelec cf]"
    and 2: "ee ! c + ei ! c = (\<Sum>i<shape_nelec cf. A i)
                 + real (shape_nelec cf) / 2 * sum_list (gweight E')
                 + ee_const E' (int (shape_nelec cf)) + ei_const E' (int (shape_nelec cf))"
    by blast
  have "map (\<lambda>v. v - e_single E' (int (shape_nelec cf))) (sep ! c) = map A [0..<shape_nelec cf]"
    unfolding 1 by (simp add: comp_def)
  then show ?thesis
    unfolding 2 by (simp only: sum_list_map_upt)
qed

theorem separated_sum_with_compensation_witness:
  "\<exists>E' ee ei ii sep.
      energy unit_ewald two_particles = Inr (E', ee, ei, ii)
    \<and> energy_separated E' two_particles = Inr (E', sep)
    \<and> (0::nat) < shape_nconf two_particles
    \<and> sum_list (map (\<lambda>v. v - e_single E' (int (shape_nelec two_particles))) (sep ! 0))
           + real (shape_nelec two_particles) / 2 * sum_list (gweight E')
           + ee_const E' (int (shape_nelec two_particles))
           + ei_const E' (int (shape_nelec two_particles))
         = ee ! 0 + ei ! 0"
proof -
  have d: "dist two_particles = raw_distance" by (simp add: two_particles_def)
  have n3: "shape_ndim two_particles = 3" by (simp add: two_particles_def)
  from energy_raw [OF d n3] obtain E' ee ei ii where
    en: "energy unit_ewald two_particles = Inr (E', ee, ei, ii)" by blast
  from energy_Inr [OF en] obtain ee0 ei0 where
    "ewald_electron unit_ewald two_particles = Inr (E', ee0, ei0)" by blast
  from energy_separated_after [OF this] obtain sep where
    es: "energy_separated E' two_particles = Inr (E', sep)" by blast
  have c: "(0::nat) < shape_nconf two_particles" by (simp add: two_particles_def)
  from separated_sum_with_compensation [OF en es c] en es c show ?thesis by blast
qed

text \<open>
  C1 as stated fails: for the object built from the unit cell and the batch of one
  configuration with two particles, the per-particle values returned by
  \<open>energy_separated\<close> after \<open>energy\<close> do not sum to the \<open>ee + ei\<close> that \<open>energy\<close> returned.
\<close>

theorem separated_sum_counterexample:
  "\<not> isl (energy unit_ewald two_particles)
   \<and> \<not> isl (energy_separated (fst (projr (energy unit_ewald two_particles))) two_particles)
   \<and> sum_list (snd (projr (energy_separated (fst (projr (energy unit_ewald two_particles)))
                                             two_particles)) ! 0)
       \<noteq> fst (snd (projr (energy unit_ewald two_particles))) ! 0
         + fst (snd (snd (projr (energy unit_ewald two_particles)))) ! 0"
proof -
  have d: "dist two_particles = raw_distance" by (simp add: two_particles_def)
  have n3: "shape_ndim two_particles = 3" by (simp add: two_particles_def)
  from energy_raw [OF d n3] obtain E' ee ei ii where
    en: "energy unit_ewald two_particles = Inr (E', ee, ei, ii)" by blast
  from energy_Inr [OF en] obtain ee0 ei0 where
    el: "ewald_electron unit_ewald two_particles = Inr (E', ee0, ei0)" by blast
  from energy_separated_after [OF el] obtain sep where
    es: "energy_separated E' two_particles = Inr (E', sep)" by blast
  have c: "(0::nat) < shape_nconf two_particles" by (simp add: two_particles_def)
  have n: "shape_nelec two_particles = 2" by (simp add: two_particles_def)
  from energy_parts [OF en es c] obtain A where
    1: "sep ! 0 = map (\<lambda>i. e_single E' 2 + A i) [0..<2]"
    and 2: "ee ! 0 + ei ! 0 = (\<Sum>i<2. A i) + sum_list (gweight E')
                 + ee_const E' 2 + ei_const E' 2"
    unfolding n by auto
  note k = ewald_electron_consts [OF el]
  have a: "alpha unit_ewald = 5"
    unfolding Ewald_init_Inr(6) [OF unit_ewald_ok] by (simp add: unit_cell_def unit_alpha)
  have ij: "ijconst unit_ewald = - pi / 25"
    unfolding Ewald_init_Inr(9) [OF unit_ewald_ok] a by (simp add: unit_cell_def)
  have "sum_list (sep ! 0) = 2 * e_single E' 2 + (\<Sum>i<2. A i)"
    unfolding 1 by (simp add: sum_list_map_upt sum.distrib)
  then have "sum_list (sep ! 0) - (ee ! 0 + ei ! 0)
      = 2 * e_single E' 2 - ee_const E' 2 - ei_const E' 2 - sum_list (gweight E')"
    unfolding 2 by simp
  also have "\<dots> = ijconst unit_ewald - sum_list (gweight unit_ewald)"
    unfolding k
    unfolding Ewald_init_Inr(10,11,12) [OF unit_ewald_ok]
    by (simp add: algebra_simps)
  also have "\<dots> < 0"
  proof -
    have "0 < pi / 25" by simp
    with unit_gweight_sum_pos show ?thesis unfolding ij by linarith
  qed
  finally have "sum_list (sep ! 0) \<noteq> ee ! 0 + ei ! 0" by simp
  with en es show ?thesis by simp
qed

text \<open>
  C4, as amended. For a batch with one mobile particle per configuration, the real-space
  mobile-mobile contribution is 0 for every configuration, and the mobile-mobile energy
  that \<open>ewald_electron\<close> returns is the reciprocal-space self term of the particle,
  \<open>\<Sum>\<^sub>G weight(G)\<close>.
\<close>

theorem single_particle_mobile_mobile:
  assumes "shape_nelec cf = 1" and "ewald_electron E cf = Inr (E', ee, ei)"
    and "c < shape_nconf cf"
  shows "ee_real_separated E cf = Inr (\<lambda>c i. 0) \<and> ee ! c = sum_list (gweight E)"
  using assms by (rule single_particle_ee)

theorem single_particle_mobile_mobile_witness:
  "\<exists>E' ee ei.
      shape_nelec one_particle = 1
    \<and> ewald_electron unit_ewald one_particle = Inr (E', ee, ei)
    \<and> (0::nat) < shape_nconf one_particle
    \<and> ee_real_separated unit_ewald one_particle = Inr (\<lambda>c i. 0)
    \<and> ee ! 0 = sum_list (gweight unit_ewald)"
proof -
  have d: "dist one_particle = raw_distance" by (simp add: one_particle_def)
  have n3: "shape_ndim one_particle = 3" by (simp add: one_particle_def)
  from ewald_electron_raw [OF d n3] obtain E' ee ei where
    el: "ewald_electron unit_ewald one_particle = Inr (E', ee, ei)" by blast
  have n: "shape_nelec one_particle = 1" and c: "(0::nat) < shape_nconf one_particle"
    by (simp_all add: one_particle_def)
  from single_particle_mobile_mobile [OF n el c] n el c show ?thesis by blast
qed

text \<open>
  C4 as stated fails: for the object built from the unit cell and the batch of one
  configuration with one particle, the mobile-mobile energy returned by
  \<open>ewald_electron\<close> is not 0.
\<close>

theorem single_particle_counterexample:
  "\<not> isl (ewald_electron unit_ewald one_particle)
   \<and> shape_nelec one_particle = 1
   \<and> fst (snd (projr (ewald_electron unit_ewald one_particle))) ! 0 \<noteq> 0"
proof -
  have d: "dist one_particle = raw_distance" by (simp add: one_particle_def)
  have n3: "shape_ndim one_particle = 3" by (simp add: one_particle_def)
  from ewald_electron_raw [OF d n3] obtain E' ee ei where
    el: "ewald_electron unit_ewald one_particle = Inr (E', ee, ei)" by blast
  have n: "shape_nelec one_particle = 1" and c: "(0::nat) < shape_nconf one_particle"
    by (simp_all add: one_particle_def)
  from single_particle_ee [OF n el c] have "ee ! 0 = sum_list (gweight unit_ewald)" by simp
  with unit_gweight_sum_pos have "ee ! 0 \<noteq> 0" by simp
  with el n show ?thesis by simp
qed






text \<open>
  C3. The claim does not hold of the code: \<open>energy_with_test_pos\<close> returns no array for a
  batch of two configurations with three particles each and one test position per
  configuration. Line 366 multiplies arrays of shapes (2, nG) and (2, 3, nG), which numpy
  cannot broadcast, and raises ValueError.
\<close>

theorem test_pos_broadcast_failure:
  "energy_with_test_pos unit_ewald two_by_three two_test_positions = Inl ValueError"
  by (simp add: energy_with_test_pos_def two_by_three_def)

text \<open>
  C6, as amended. The code has no check of the shape of a batch. A call of
  \<open>ewald_electron\<close>, \<open>energy\<close> or \<open>energy_with_test_pos\<close> with a batch whose last axis is
  not of length 3 fails with an error: it returns neither a partial result nor a changed
  object. \<open>energy_separated\<close> does not look at the last axis: it does for such a batch what
  it does for a batch of the same first two axes and last axis 3.
\<close>

theorem mismatched_batch:
  assumes "shape_ndim cf \<noteq> 3"
  shows "isl (ewald_electron E cf) \<and> isl (energy E cf) \<and> isl (energy_with_test_pos E cf epos)
       \<and> energy_separated E cf = energy_separated E (cf\<lparr>shape_ndim := 3\<rparr>)"
  using assms
  by (simp add: ewald_electron_mismatch energy_mismatch energy_with_test_pos_def
        energy_separated_def)

theorem mismatched_batch_witness:
  "shape_ndim planar_batch \<noteq> 3
   \<and> isl (ewald_electron unit_ewald planar_batch)
   \<and> isl (energy unit_ewald planar_batch)
   \<and> isl (energy_with_test_pos unit_ewald planar_batch two_test_positions)
   \<and> energy_separated unit_ewald planar_batch
       = energy_separated unit_ewald (planar_batch\<lparr>shape_ndim := 3\<rparr>)"
proof -
  have n: "shape_ndim planar_batch \<noteq> 3" by (simp add: planar_batch_def)
  from mismatched_batch [OF n, of unit_ewald two_test_positions] n show ?thesis
    by simp
qed

text \<open>
  C6 as stated fails: after an evaluation of the batch of two particles,
  \<open>energy_separated\<close> accepts the batch of shape (1, 2, 2) and returns a result.
\<close>

theorem mismatched_batch_counterexample:
  "shape_ndim planar_batch \<noteq> 3
   \<and> \<not> isl (ewald_electron unit_ewald two_particles)
   \<and> \<not> isl (energy_separated (fst (projr (ewald_electron unit_ewald two_particles)))
                              planar_batch)"
proof -
  have d: "dist two_particles = raw_distance" by (simp add: two_particles_def)
  have n3: "shape_ndim two_particles = 3" by (simp add: two_particles_def)
  from ewald_electron_raw [OF d n3] obtain E' ee ei where
    el: "ewald_electron unit_ewald two_particles = Inr (E', ee, ei)" by blast
  from energy_separated_after [OF el] obtain sep where
    "energy_separated E' planar_batch = Inr (E', sep)" by blast
  with el show ?thesis by (simp add: planar_batch_def)
qed

end
